theory Spec2Isabelle
  imports Complex_Main
begin

section \<open>Spherical-overdensity halo properties (SOAP)\<close>

text \<open>
  A shallow embedding of \<^verbatim>\<open>halo_centres.py\<close> (class \<^verbatim>\<open>SOCatalogue\<close>) and of
  \<^verbatim>\<open>SO_properties.py\<close> (class \<^verbatim>\<open>SOProperties\<close>).

  Numbers: the Python code computes with IEEE double-precision arrays; the model computes
  with \<^typ>\<open>real\<close>. Every property below is about which branch is taken, which entries
  are selected and which sums are formed, stated for exact arithmetic; rounding, NaN and
  infinities are outside the model.

  Arrays: a one-dimensional numpy array is a list, an \<open>N \<times> 3\<close> array is a list of
  triples. A \<^verbatim>\<open>unyt_array\<close> is such an array together with the name of its unit.
\<close>

type_synonym vec3 = "real \<times> real \<times> real"

subsection \<open>\<^verbatim>\<open>halo_centres.py\<close>: search and read radii\<close>

text \<open>
  One row of the catalogue as \<^verbatim>\<open>mf.read(datasets)\<close> delivers it (the seven datasets
  are columns of equal length; a row is one halo). The two attribute groups read from the
  first file are records of the attributes the code uses.
\<close>

record catalogue_row =
  Xcminpot :: real
  Ycminpot :: real
  Zcminpot :: real
  Xc :: real
  Yc :: real
  Zc :: real
  R_size :: real

record unit_info =
  Comoving_or_Physical :: int
  Length_unit_to_kpc :: real
  Mass_unit_to_solarmass :: real

record sim_info =
  h_val :: real

text \<open>Lines 57--68: conversion factors to comoving Mpc and solar masses.\<close>

definition length_conversion :: "unit_info \<Rightarrow> sim_info \<Rightarrow> real \<Rightarrow> real" where
  "length_conversion units siminfo a =
     (if Comoving_or_Physical units = 0
      then (1 / a) * Length_unit_to_kpc units / 1000
      else h_val siminfo * Length_unit_to_kpc units / 1000)"

definition mass_conversion :: "unit_info \<Rightarrow> sim_info \<Rightarrow> real" where
  "mass_conversion units siminfo =
     (if Comoving_or_Physical units = 0
      then Mass_unit_to_solarmass units
      else h_val siminfo * Mass_unit_to_solarmass units)"

text \<open>Lines 41--43 and 71--73: the stacked and converted positions and size radius.\<close>

definition local_cofm :: "real \<Rightarrow> catalogue_row \<Rightarrow> vec3" where
  "local_cofm conv row = (Xc row * conv, Yc row * conv, Zc row * conv)"

definition local_cofp :: "real \<Rightarrow> catalogue_row \<Rightarrow> vec3" where
  "local_cofp conv row = (Xcminpot row * conv, Ycminpot row * conv, Zcminpot row * conv)"

definition local_r_size :: "real \<Rightarrow> catalogue_row \<Rightarrow> real" where
  "local_r_size conv row = R_size row * conv"

text \<open>
  Lines 88--92. \<open>abs_diff\<close> is \<^verbatim>\<open>np.abs(local_cofp - local_cofm)\<close> on one halo,
  \<open>wrap\<close> is the body of the loop over \<^verbatim>\<open>dim\<close> on one entry, and \<open>periodic_dist\<close>
  is the value of \<^verbatim>\<open>dist\<close> after line 92.
\<close>

definition abs_diff :: "vec3 \<Rightarrow> vec3 \<Rightarrow> vec3" where
  "abs_diff p q =
     (case p of (px, py, pz) \<Rightarrow> case q of (qx, qy, qz) \<Rightarrow>
        (\<bar>px - qx\<bar>, \<bar>py - qy\<bar>, \<bar>pz - qz\<bar>))"

definition wrap :: "real \<Rightarrow> real \<Rightarrow> real" where
  "wrap boxsize d = (if d > 0.5 * boxsize then boxsize - d else d)"

definition wrap_dims :: "real \<Rightarrow> vec3 \<Rightarrow> vec3" where
  "wrap_dims boxsize d =
     (case d of (dx, dy, dz) \<Rightarrow> (wrap boxsize dx, wrap boxsize dy, wrap boxsize dz))"

definition norm3 :: "vec3 \<Rightarrow> real" where
  "norm3 v = (case v of (x, y, z) \<Rightarrow> sqrt (x\<^sup>2 + y\<^sup>2 + z\<^sup>2))"

definition periodic_dist :: "real \<Rightarrow> vec3 \<Rightarrow> vec3 \<Rightarrow> real" where
  "periodic_dist boxsize cofp cofm = norm3 (wrap_dims boxsize (abs_diff cofp cofm))"

text \<open>Line 95: the initial search radius of one halo.\<close>

definition local_search_radius :: "real \<Rightarrow> real \<Rightarrow> catalogue_row \<Rightarrow> real" where
  "local_search_radius boxsize conv row =
     local_r_size conv row * 1.01
     + periodic_dist boxsize (local_cofp conv row) (local_cofm conv row)"

text \<open>Lines 99--102: the radius to read in, with the floor of 5 Mpc.\<close>

definition min_radius :: real where
  "min_radius = 5.0"

definition local_read_radius :: "real \<Rightarrow> real \<Rightarrow> catalogue_row \<Rightarrow> real" where
  "local_read_radius boxsize conv row =
     (let r = local_search_radius boxsize conv row
      in if r < min_radius then min_radius else r)"

text \<open>
  The catalogue object built on the coordinating rank: the gathered arrays, all in Mpc.
  (The gather concatenates the per-rank arrays in halo order; the model computes them for
  the whole list of rows.)
\<close>

record so_catalogue =
  nr_halos :: nat
  search_radius :: "real list"
  read_radius :: "real list"
  centre :: "vec3 list"
  index :: "nat list"

definition SOCatalogue ::
  "catalogue_row list \<Rightarrow> unit_info \<Rightarrow> sim_info \<Rightarrow> real \<Rightarrow> real \<Rightarrow> so_catalogue" where
  "SOCatalogue rows units siminfo a boxsize =
     (let conv = length_conversion units siminfo a
      in \<lparr> nr_halos = length rows,
           search_radius = map (local_search_radius boxsize conv) rows,
           read_radius = map (local_read_radius boxsize conv) rows,
           centre = map (local_cofp conv) rows,
           index = [0..<length rows] \<rparr>)"

subsection \<open>\<^verbatim>\<open>SO_properties.py\<close>: errors, arrays and construction\<close>

datatype error =
    KeyError string
  | AttributeError string
  | ValueError
  | RuntimeError
  | NameError
  | IndexError
  | UnitOperationError

definition bind :: "error + 'a \<Rightarrow> ('a \<Rightarrow> error + 'b) \<Rightarrow> error + 'b" where
  "bind m f = (case m of Inl e \<Rightarrow> Inl e | Inr x \<Rightarrow> f x)"

text \<open>
  The calculator object. \<open>so_type\<close>, \<open>mean_density_multiple\<close>,
  \<open>critical_density_multiple\<close> and \<open>name\<close> are set by \<^verbatim>\<open>__init__\<close>;
  \<open>critical_density\<close> and \<open>mean_density\<close> are attributes that \<^verbatim>\<open>calculate\<close> reads
  from \<^verbatim>\<open>self\<close> and that the base class \<^verbatim>\<open>HaloProperty\<close> provides, so the model
  takes them as arguments of the constructor.
\<close>

record so_properties =
  so_type :: string
  mean_density_multiple :: real
  critical_density_multiple :: real
  name :: string
  critical_density :: real
  mean_density :: real

text \<open>
  Decimal rendering for \<^verbatim>\<open>"%d"\<close> and \<^verbatim>\<open>"{:.0f}"\<close>. \<^verbatim>\<open>%d\<close> truncates towards
  zero, \<^verbatim>\<open>.0f\<close> rounds to the nearest integer, ties to even, and keeps the sign of a
  negative argument that rounds to zero.
\<close>

function str_nat :: "nat \<Rightarrow> string" where
  "str_nat n =
     (if n < 10 then [''0123456789'' ! n]
      else str_nat (n div 10) @ [''0123456789'' ! (n mod 10)])"
  by pat_completeness auto
termination
  by (relation "measure (\<lambda>n. n)") auto

declare str_nat.simps [simp del]

definition fmt_d :: "real \<Rightarrow> string" where
  "fmt_d x = (if x \<le> -1 then ''-'' else '''') @ str_nat (nat \<lfloor>\<bar>x\<bar>\<rfloor>)"

definition round_half_even :: "real \<Rightarrow> nat" where
  "round_half_even x =
     (let f = nat \<lfloor>x\<rfloor>; d = x - of_int \<lfloor>x\<rfloor>
      in if d < 1 / 2 then f else if 1 / 2 < d then Suc f else if even f then f else Suc f)"

definition fmt_0f :: "real \<Rightarrow> string" where
  "fmt_0f x = (if x < 0 then ''-'' else '''') @ str_nat (round_half_even \<bar>x\<bar>)"

text \<open>Lines 35--47: \<^verbatim>\<open>SOProperties.__init__\<close>.\<close>

definition init :: "real \<Rightarrow> real \<Rightarrow> real \<Rightarrow> string \<Rightarrow> error + so_properties" where
  "init crit_density mean_dens SOval type =
     (if type \<notin> set [''mean'', ''crit'']
      then Inl (AttributeError (''Unknown SO type: '' @ type @ ''!''))
      else Inr \<lparr> so_type = type,
                 mean_density_multiple = SOval,
                 critical_density_multiple = SOval,
                 name = ''SO_'' @ fmt_d SOval @ ''_'' @ type,
                 critical_density = crit_density,
                 mean_density = mean_dens \<rparr>)"

subsection \<open>Arrays with units, numpy operations\<close>

text \<open>
  A \<^verbatim>\<open>unyt_array\<close>: the numbers (\<^verbatim>\<open>ndview\<close>) and the unit. The values of the
  dictionaries can be arrays of any shape, so they hold an \<open>ndarray\<close>; the code's local
  variables have a known shape. Where the code takes a field for a one-dimensional or an
  \<open>N \<times> 3\<close> array, the model reports a field of another shape as \<open>ValueError\<close>.

  The model has no unit conversion: the operands of one array operation must carry the same
  unit name, otherwise the model reports \<open>UnitOperationError\<close> (unyt raises this error
  for units of different dimensions and converts between units of the same dimension).
  The reference densities \<open>critical_density\<close> and \<open>mean_density\<close> are numbers in the
  unit (mass unit)/(length unit cubed) of the particle arrays.
\<close>

datatype ndarray = Arr0 real | Arr1 "real list" | Arr2 "vec3 list"

record 'a unyt_array =
  ndview :: 'a
  units :: string

type_synonym fields = "string \<rightharpoonup> ndarray unyt_array"

text \<open>
  A Python dict that is iterated over (\<^verbatim>\<open>for ptype in data\<close>) is an association
  list with distinct keys, in insertion order; \<^verbatim>\<open>data[k]\<close> is \<open>map_of data k\<close>.
\<close>

type_synonym particle_data = "(string \<times> fields) list"

type_synonym halo_result = "string \<rightharpoonup> (ndarray unyt_array \<times> string)"

definition getitem :: "(string \<rightharpoonup> 'v) \<Rightarrow> string \<Rightarrow> error + 'v" where
  "getitem m k = (case m k of None \<Rightarrow> Inl (KeyError k) | Some v \<Rightarrow> Inr v)"

definition as1 :: "ndarray unyt_array \<Rightarrow> error + real list unyt_array" where
  "as1 a = (case ndview a of Arr1 xs \<Rightarrow> Inr \<lparr>ndview = xs, units = units a\<rparr>
            | _ \<Rightarrow> Inl ValueError)"

definition as2 :: "ndarray unyt_array \<Rightarrow> error + vec3 list unyt_array" where
  "as2 a = (case ndview a of Arr2 xs \<Rightarrow> Inr \<lparr>ndview = xs, units = units a\<rparr>
            | _ \<Rightarrow> Inl ValueError)"

definition as_vec3 :: "ndarray unyt_array \<Rightarrow> error + vec3 unyt_array" where
  "as_vec3 a = (case ndview a of Arr1 [x, y, z] \<Rightarrow> Inr \<lparr>ndview = (x, y, z), units = units a\<rparr>
                | _ \<Rightarrow> Inl ValueError)"

definition scalar :: "real unyt_array \<Rightarrow> ndarray unyt_array" where
  "scalar q = \<lparr>ndview = Arr0 (ndview q), units = units q\<rparr>"

definition vector :: "vec3 unyt_array \<Rightarrow> ndarray unyt_array" where
  "vector q = (case ndview q of (x, y, z) \<Rightarrow> \<lparr>ndview = Arr1 [x, y, z], units = units q\<rparr>)"

definition zero_with :: "string \<Rightarrow> real unyt_array" where
  "zero_with u = \<lparr>ndview = 0, units = u\<rparr>"

definition zero3_with :: "string \<Rightarrow> vec3 unyt_array" where
  "zero3_with u = \<lparr>ndview = (0, 0, 0), units = u\<rparr>"

text \<open>
  \<^verbatim>\<open>unyt.array.uconcatenate\<close>: numpy refuses an empty list of arrays, unyt refuses
  arrays whose units are not identical; the result has the unit of the first array.
\<close>

definition uconcatenate :: "'a list unyt_array list \<Rightarrow> error + 'a list unyt_array" where
  "uconcatenate arrs =
     (case arrs of
        [] \<Rightarrow> Inl ValueError
      | a1 # rest \<Rightarrow>
          if \<not> list_all (\<lambda>a. units a = units a1) rest then Inl RuntimeError
          else Inr \<lparr>ndview = concat (map ndview arrs), units = units a1\<rparr>)"

definition np_concatenate :: "'a list list \<Rightarrow> error + 'a list" where
  "np_concatenate arrs = (case arrs of [] \<Rightarrow> Inl ValueError | _ \<Rightarrow> Inr (concat arrs))"

text \<open>
  \<^verbatim>\<open>np.argsort\<close>: the indices that sort the array. (numpy's default sort does not
  promise an order among equal keys; the model takes the stable one.)
\<close>

definition argsort :: "real list \<Rightarrow> nat list" where
  "argsort xs = sort_key (\<lambda>i. xs ! i) [0..<length xs]"

text \<open>\<^verbatim>\<open>a[order]\<close> for an index array and \<^verbatim>\<open>a[mask]\<close> for a boolean mask.\<close>

definition take_idx :: "'a list \<Rightarrow> nat list \<Rightarrow> error + 'a list" where
  "take_idx xs idx =
     (if list_all (\<lambda>i. i < length xs) idx then Inr (map (\<lambda>i. xs ! i) idx)
      else Inl IndexError)"

definition mask_select :: "'a list \<Rightarrow> bool list \<Rightarrow> error + 'a list" where
  "mask_select xs sel =
     (if length sel = length xs then Inr (map fst (filter snd (zip xs sel)))
      else Inl IndexError)"

definition item :: "'a list \<Rightarrow> nat \<Rightarrow> error + 'a" where
  "item xs i = (if i < length xs then Inr (xs ! i) else Inl IndexError)"

fun cumsum_from :: "real \<Rightarrow> real list \<Rightarrow> real list" where
  "cumsum_from acc [] = []"
| "cumsum_from acc (x # xs) = (acc + x) # cumsum_from (acc + x) xs"

definition cumsum :: "real list \<Rightarrow> real list" where
  "cumsum xs = cumsum_from 0 xs"

definition np_any :: "bool list \<Rightarrow> bool" where
  "np_any bs = list_ex (\<lambda>b. b) bs"

text \<open>
  \<^verbatim>\<open>np.argmax\<close> of a boolean array: the index of the first \<^verbatim>\<open>True\<close>, and index 0
  when there is none (the first maximum of an all-\<^verbatim>\<open>False\<close> array); an empty array is
  refused.
\<close>

definition argmax_bool :: "bool list \<Rightarrow> error + nat" where
  "argmax_bool bs =
     (if bs = [] then Inl ValueError
      else if np_any bs then Inr (length (takeWhile Not bs))
      else Inr 0)"

definition same_units :: "string \<Rightarrow> string \<Rightarrow> error + unit" where
  "same_units u1 u2 = (if u1 = u2 then Inr () else Inl UnitOperationError)"

text \<open>
  Modelled from the spec: \<^verbatim>\<open>dataset_names.mass_dataset\<close> is not among the sources.
  The spec has a species-specific mass field resolved by a lookup from species to field
  name, black holes using the dynamical mass; \<^verbatim>\<open>particle_properties\<close> lists
  \<^verbatim>\<open>DynamicalMasses\<close> for \<^verbatim>\<open>PartType5\<close> and \<^verbatim>\<open>Masses\<close> for the other types.
\<close>

definition mass_dataset :: "string \<Rightarrow> string" where
  "mass_dataset ptype = (if ptype = ''PartType5'' then ''DynamicalMasses'' else ''Masses'')"

subsection \<open>\<^verbatim>\<open>SOProperties.calculate\<close>, lines 63--87: the particle arrays\<close>

text \<open>
  The five arrays that the loop over \<^verbatim>\<open>data\<close> collects: for one species before the
  concatenation, for the halo after it.
\<close>

record particles =
  mass :: "real list unyt_array"
  radius :: "real list unyt_array"
  position :: "vec3 list unyt_array"
  velocity :: "vec3 list unyt_array"
  types :: "string list"

definition vsub :: "vec3 \<Rightarrow> vec3 \<Rightarrow> vec3" where
  "vsub p q = (case p of (px, py, pz) \<Rightarrow> case q of (qx, qy, qz) \<Rightarrow> (px - qx, py - qy, pz - qz))"

definition vadd :: "vec3 \<Rightarrow> vec3 \<Rightarrow> vec3" where
  "vadd p q = (case p of (px, py, pz) \<Rightarrow> case q of (qx, qy, qz) \<Rightarrow> (px + qx, py + qy, pz + qz))"

definition vscale :: "real \<Rightarrow> vec3 \<Rightarrow> vec3" where
  "vscale c p = (case p of (px, py, pz) \<Rightarrow> (c * px, c * py, c * pz))"

definition vdiv :: "vec3 \<Rightarrow> real \<Rightarrow> vec3" where
  "vdiv p c = (case p of (px, py, pz) \<Rightarrow> (px / c, py / c, pz / c))"

definition vsum :: "vec3 list \<Rightarrow> vec3" where
  "vsum ps = foldl vadd (0, 0, 0) ps"

definition subtract_centre ::
  "vec3 list unyt_array \<Rightarrow> vec3 unyt_array \<Rightarrow> error + vec3 list unyt_array" where
  "subtract_centre coords cofp =
     bind (same_units (units coords) (units cofp)) (\<lambda>_.
     Inr \<lparr>ndview = map (\<lambda>x. vsub x (ndview cofp)) (ndview coords), units = units coords\<rparr>)"

text \<open>
  Lines 73--81, the body of the loop for one species; \<open>cofp\<close> is the variable
  \<^verbatim>\<open>centre\<close>, the value of \<^verbatim>\<open>input_halo["cofp"]\<close>. The type array has
  \<^verbatim>\<open>dtype="U9"\<close>: numpy keeps the first nine characters of the species name.
\<close>

definition load_species :: "vec3 unyt_array \<Rightarrow> string \<Rightarrow> fields \<Rightarrow> error + particles" where
  "load_species cofp ptype fs =
     bind (getitem fs (mass_dataset ptype)) (\<lambda>m0. bind (as1 m0) (\<lambda>m.
     bind (getitem fs ''Coordinates'') (\<lambda>c0. bind (as2 c0) (\<lambda>c.
     bind (subtract_centre c cofp) (\<lambda>pos.
     let r = \<lparr>ndview = map norm3 (ndview pos), units = units pos\<rparr> in
     bind (getitem fs ''Velocities'') (\<lambda>v0. bind (as2 v0) (\<lambda>v.
     Inr \<lparr> mass = m, radius = r, position = pos, velocity = v,
           types = replicate (length (ndview r)) (take 9 ptype) \<rparr>)))))))"

fun load_all :: "vec3 unyt_array \<Rightarrow> particle_data \<Rightarrow> error + particles list" where
  "load_all cofp [] = Inr []"
| "load_all cofp ((ptype, fs) # rest) =
     bind (load_species cofp ptype fs) (\<lambda>p.
     bind (load_all cofp rest) (\<lambda>ps. Inr (p # ps)))"

text \<open>Lines 82--86: the concatenation over the species.\<close>

definition concat_particles :: "particles list \<Rightarrow> error + particles" where
  "concat_particles ps =
     bind (uconcatenate (map mass ps)) (\<lambda>m.
     bind (uconcatenate (map radius ps)) (\<lambda>r.
     bind (uconcatenate (map position ps)) (\<lambda>pos.
     bind (uconcatenate (map velocity ps)) (\<lambda>v.
     bind (np_concatenate (map types ps)) (\<lambda>ty.
     Inr \<lparr> mass = m, radius = r, position = pos, velocity = v, types = ty \<rparr>)))))"

subsection \<open>Lines 89--102: the density profile\<close>

text \<open>The loop of lines 96--98, started with \<^verbatim>\<open>nskip = 0\<close>.\<close>

function skip_zero :: "real list \<Rightarrow> nat \<Rightarrow> nat" where
  "skip_zero ordered_radius nskip =
     (if nskip < length ordered_radius \<and> ordered_radius ! nskip = 0
      then skip_zero ordered_radius (nskip + 1) else nskip)"
  by pat_completeness auto
termination
  by (relation "measure (\<lambda>(rs, n). length rs - n)") auto

declare skip_zero.simps [simp del]

definition shell_density :: "real \<Rightarrow> real \<Rightarrow> real" where
  "shell_density m r = m / (4.0 / 3.0 * pi * r ^ 3)"

record profile =
  sorted_mass :: "real list"
  nskip :: nat
  ordered_radius :: "real list"
  cumulative_mass :: "real list"
  density :: "real list"

text \<open>
  \<open>sorted_mass\<close> is \<^verbatim>\<open>mass[order]\<close> and \<open>nskip\<close> the number of skipped entries;
  the other three fields are the variables of these names after line 102.
\<close>

definition build_profile :: "particles \<Rightarrow> error + profile" where
  "build_profile p =
     (let order = argsort (ndview (radius p)) in
      bind (take_idx (ndview (radius p)) order) (\<lambda>ordered_radius0.
      bind (take_idx (ndview (mass p)) order) (\<lambda>mass_order.
      let cumulative_mass0 = cumsum mass_order;
          n = skip_zero ordered_radius0 0;
          ordered_radius1 = drop n ordered_radius0;
          cumulative_mass1 = drop n cumulative_mass0
      in Inr \<lparr> sorted_mass = mass_order, nskip = n,
                ordered_radius = ordered_radius1,
                cumulative_mass = cumulative_mass1,
                density = map2 shell_density cumulative_mass1 ordered_radius1 \<rparr>)))"

subsection \<open>Lines 104--124: the reference density and the threshold crossing\<close>

text \<open>
  The three variables \<^verbatim>\<open>reference_density\<close>, \<^verbatim>\<open>name\<close> and \<^verbatim>\<open>label\<close> are bound
  only when the type is \<^verbatim>\<open>"crit"\<close> or \<^verbatim>\<open>"mean"\<close>; reading them otherwise is a
  \<open>NameError\<close>.
\<close>

definition reference :: "so_properties \<Rightarrow> (real \<times> string \<times> string) option" where
  "reference self =
     (if so_type self = ''crit'' then
        Some (critical_density_multiple self * critical_density self,
              fmt_0f (critical_density_multiple self) @ ''_crit'',
              ''within which the density is '' @ fmt_0f (critical_density_multiple self)
                @ '' times the critical value'')
      else if so_type self = ''mean'' then
        Some (mean_density_multiple self * mean_density self,
              fmt_0f (mean_density_multiple self) @ ''_mean'',
              ''within which the density is '' @ fmt_0f (mean_density_multiple self)
                @ '' times the mean value'')
      else None)"

definition bound :: "'a option \<Rightarrow> error + 'a" where
  "bound x = (case x of None \<Rightarrow> Inl NameError | Some v \<Rightarrow> Inr v)"

text \<open>
  Line 114, the test \<^verbatim>\<open>nr_parts > 0 and np.any(density > reference_density)\<close>;
  \<^verbatim>\<open>and\<close> does not evaluate its second operand when the first is false.
\<close>

definition reaches_threshold :: "(real \<times> string \<times> string) option \<Rightarrow> profile \<Rightarrow> error + bool" where
  "reaches_threshold ref prof =
     (if length (ordered_radius prof) > 0
      then bind (bound ref) (\<lambda>(reference_density, _, _).
             Inr (np_any (map (\<lambda>d. d > reference_density) (density prof))))
      else Inr False)"

text \<open>Lines 114--124: the pair \<^verbatim>\<open>(mSO, rSO)\<close>.\<close>

definition find_SO ::
  "(real \<times> string \<times> string) option \<Rightarrow> particles \<Rightarrow> profile
     \<Rightarrow> error + (real unyt_array \<times> real unyt_array)" where
  "find_SO ref p prof =
     bind (reaches_threshold ref prof) (\<lambda>reached.
     if reached then
       bind (bound ref) (\<lambda>(reference_density, _, _).
       bind (argmax_bool (map (\<lambda>d. d < reference_density) (density prof))) (\<lambda>i.
       bind (item (cumulative_mass prof) i) (\<lambda>m.
       bind (item (ordered_radius prof) i) (\<lambda>r.
       Inr (\<lparr>ndview = m, units = units (mass p)\<rparr>, \<lparr>ndview = r, units = units (radius p)\<rparr>)))))
     else
       Inr (zero_with (units (mass p)), zero_with (units (radius p))))"

subsection \<open>Lines 126--190: the aggregates inside the SO radius\<close>

record so_values =
  rSO :: "real unyt_array"
  mSO :: "real unyt_array"
  comSO :: "vec3 unyt_array"
  vcomSO :: "vec3 unyt_array"
  MgasSO :: "real unyt_array"
  MdmSO :: "real unyt_array"
  MstarSO :: "real unyt_array"
  MBHdynSO :: "real unyt_array"
  MstarinitSO :: "real unyt_array"
  MBHsubSO :: "real unyt_array"
  MhotgasSO :: "real unyt_array"
  TgasSO :: "real unyt_array"
  XraylumSO :: "real unyt_array"
  XrayphlumSO :: "real unyt_array"
  compYSO :: "real unyt_array"

text \<open>\<^verbatim>\<open>data[ptype][field]\<close> for a one-dimensional field.\<close>

definition field1 :: "particle_data \<Rightarrow> string \<Rightarrow> string \<Rightarrow> error + real list unyt_array" where
  "field1 data ptype f =
     bind (getitem (map_of data) ptype) (\<lambda>fs. bind (getitem fs f) as1)"

text \<open>\<^verbatim>\<open>a[types == ptype]\<close> and \<^verbatim>\<open>a[sel].sum()\<close>.\<close>

definition of_type :: "'a list \<Rightarrow> string list \<Rightarrow> string \<Rightarrow> error + 'a list" where
  "of_type xs ty ptype = mask_select xs (map (\<lambda>t. t = ptype) ty)"

definition masked_sum :: "real list unyt_array \<Rightarrow> bool list \<Rightarrow> error + real unyt_array" where
  "masked_sum a sel =
     bind (mask_select (ndview a) sel) (\<lambda>xs. Inr \<lparr>ndview = sum_list xs, units = units a\<rparr>)"

text \<open>
  Lines 150--160: the mass and the mass-weighted temperature of the gas above
  100000 K among the selected gas particles. The division by \<^verbatim>\<open>MhotgasSO\<close>
  here, and by \<^verbatim>\<open>mSO\<close> below, is HOL's (a quotient by zero is zero, where numpy
  gives nan or inf without raising).
\<close>

definition hot_gas ::
  "real list \<Rightarrow> string \<Rightarrow> real list unyt_array \<Rightarrow> bool list
     \<Rightarrow> error + (real unyt_array \<times> real unyt_array)" where
  "hot_gas gas_masses mass_units Tgas gas_selection =
     bind (mask_select (ndview Tgas) gas_selection) (\<lambda>gas_temperatures.
     bind (same_units (units Tgas) ''K'') (\<lambda>_.
     let Tgas_selection = map (\<lambda>T. T > 100000) gas_temperatures in
     bind (mask_select gas_masses Tgas_selection) (\<lambda>hot_masses.
     let Mhotgas = sum_list hot_masses in
     bind (if np_any Tgas_selection
           then bind (mask_select gas_temperatures Tgas_selection) (\<lambda>hot_temperatures.
                  Inr \<lparr>ndview = sum_list (map2 (*) hot_temperatures hot_masses) / Mhotgas,
                       units = units Tgas\<rparr>)
           else Inr (zero_with (units Tgas))) (\<lambda>Tgas_SO.
     Inr (\<lparr>ndview = Mhotgas, units = mass_units\<rparr>, Tgas_SO)))))"

text \<open>Lines 131--168, the branch \<^verbatim>\<open>rSO > 0\<close>.\<close>

definition inside_SO ::
  "vec3 unyt_array \<Rightarrow> particle_data \<Rightarrow> particles \<Rightarrow> real unyt_array \<Rightarrow> real unyt_array
     \<Rightarrow> real list unyt_array \<Rightarrow> real list unyt_array \<Rightarrow> real list unyt_array
     \<Rightarrow> real list unyt_array \<Rightarrow> error + so_values" where
  "inside_SO cofp data p m_SO r_SO Tgas Xray_lum Xray_phlum compY =
     (let r = ndview (radius p); below = (\<lambda>x. x < ndview r_SO) in
      bind (of_type r (types p) ''PartType0'') (\<lambda>r_gas.
      bind (of_type r (types p) ''PartType4'') (\<lambda>r_star.
      bind (of_type r (types p) ''PartType5'') (\<lambda>r_bh.
      let gas_selection = map below r_gas;
          star_selection = map below r_star;
          bh_selection = map below r_bh;
          all_selection = map below r
      in
      bind (mask_select (ndview (mass p)) all_selection) (\<lambda>mass1.
      bind (mask_select (ndview (position p)) all_selection) (\<lambda>position1.
      bind (mask_select (ndview (velocity p)) all_selection) (\<lambda>velocity1.
      bind (mask_select (types p) all_selection) (\<lambda>types1.
      let com0 = vdiv (vsum (map2 vscale mass1 position1)) (ndview m_SO);
          com = vadd com0 (ndview cofp);
          vcom = vdiv (vsum (map2 vscale mass1 velocity1)) (ndview m_SO)
      in
      bind (of_type mass1 types1 ''PartType0'') (\<lambda>gas_masses.
      bind (of_type mass1 types1 ''PartType1'') (\<lambda>dm_masses.
      bind (of_type mass1 types1 ''PartType4'') (\<lambda>star_masses.
      bind (of_type mass1 types1 ''PartType5'') (\<lambda>bh_masses.
      bind (hot_gas gas_masses (units (mass p)) Tgas gas_selection) (\<lambda>(Mhotgas, Tgas_SO).
      bind (masked_sum Xray_lum gas_selection) (\<lambda>Xraylum.
      bind (masked_sum Xray_phlum gas_selection) (\<lambda>Xrayphlum.
      bind (masked_sum compY gas_selection) (\<lambda>compY_SO.
      bind (field1 data ''PartType4'' ''InitialMasses'') (\<lambda>initial_masses.
      bind (masked_sum initial_masses star_selection) (\<lambda>Mstarinit.
      bind (field1 data ''PartType5'' ''SubgridMasses'') (\<lambda>subgrid_masses.
      bind (masked_sum subgrid_masses bh_selection) (\<lambda>MBHsub.
      Inr \<lparr> rSO = r_SO, mSO = m_SO,
            comSO = \<lparr>ndview = com, units = units (position p)\<rparr>,
            vcomSO = \<lparr>ndview = vcom, units = units (velocity p)\<rparr>,
            MgasSO = \<lparr>ndview = sum_list gas_masses, units = units (mass p)\<rparr>,
            MdmSO = \<lparr>ndview = sum_list dm_masses, units = units (mass p)\<rparr>,
            MstarSO = \<lparr>ndview = sum_list star_masses, units = units (mass p)\<rparr>,
            MBHdynSO = \<lparr>ndview = sum_list bh_masses, units = units (mass p)\<rparr>,
            MstarinitSO = Mstarinit,
            MBHsubSO = MBHsub,
            MhotgasSO = Mhotgas,
            TgasSO = Tgas_SO,
            XraylumSO = Xraylum,
            XrayphlumSO = Xrayphlum,
            compYSO = compY_SO \<rparr>))))))))))))))))))))"

text \<open>Lines 172--190, the branch \<^verbatim>\<open>rSO = 0\<close>: zeros with units.\<close>

definition outside_SO ::
  "particles \<Rightarrow> real unyt_array \<Rightarrow> real unyt_array
     \<Rightarrow> real list unyt_array \<Rightarrow> real list unyt_array \<Rightarrow> real list unyt_array
     \<Rightarrow> real list unyt_array \<Rightarrow> so_values" where
  "outside_SO p m_SO r_SO Tgas Xray_lum Xray_phlum compY =
     \<lparr> rSO = r_SO, mSO = m_SO,
       comSO = zero3_with (units (radius p)),
       vcomSO = zero3_with (units (velocity p)),
       MgasSO = zero_with (units m_SO),
       MdmSO = zero_with (units m_SO),
       MstarSO = zero_with (units m_SO),
       MBHdynSO = zero_with (units m_SO),
       MstarinitSO = zero_with (units m_SO),
       MBHsubSO = zero_with (units m_SO),
       MhotgasSO = zero_with (units m_SO),
       TgasSO = zero_with (units Tgas),
       XraylumSO = zero_with (units Xray_lum),
       XrayphlumSO = zero_with (units Xray_phlum),
       compYSO = zero_with (units compY) \<rparr>"

text \<open>Lines 126--190.\<close>

definition aperture ::
  "vec3 unyt_array \<Rightarrow> particle_data \<Rightarrow> particles \<Rightarrow> real unyt_array \<Rightarrow> real unyt_array
     \<Rightarrow> error + so_values" where
  "aperture cofp data p m_SO r_SO =
     bind (field1 data ''PartType0'' ''Temperatures'') (\<lambda>Tgas.
     bind (field1 data ''PartType0'' ''XrayLuminosities'') (\<lambda>Xray_lum.
     bind (field1 data ''PartType0'' ''XrayPhotonLuminosities'') (\<lambda>Xray_phlum.
     bind (field1 data ''PartType0'' ''ComptonYParameters'') (\<lambda>compY.
     if ndview r_SO > 0.0
     then inside_SO cofp data p m_SO r_SO Tgas Xray_lum Xray_phlum compY
     else Inr (outside_SO p m_SO r_SO Tgas Xray_lum Xray_phlum compY)))))"

subsection \<open>Lines 194--234: the entries added to \<^verbatim>\<open>halo_result\<close>\<close>

definition result_entries ::
  "string \<Rightarrow> string \<Rightarrow> so_values \<Rightarrow> (string \<times> (ndarray unyt_array \<times> string)) list" where
  "result_entries nm label v =
     [ (''r_'' @ nm, (scalar (rSO v), ''Radius '' @ label)),
       (''m_'' @ nm, (scalar (mSO v), ''Mass within a sphere '' @ label)),
       (''com_'' @ nm, (vector (comSO v), ''Centre of mass within a sphere '' @ label)),
       (''vcom_'' @ nm,
          (vector (vcomSO v), ''Centre of mass velocity within a sphere '' @ label)),
       (''Mgas_'' @ nm, (scalar (MgasSO v), ''Total gas mass within a sphere '' @ label)),
       (''Mdm_'' @ nm, (scalar (MdmSO v), ''Total DM mass within a sphere '' @ label)),
       (''Mstar_'' @ nm, (scalar (MstarSO v), ''Total stellar mass within a sphere '' @ label)),
       (''MBHdyn_'' @ nm,
          (scalar (MBHdynSO v), ''Total dynamical BH mass within a sphere '' @ label)),
       (''Mstarinit_'' @ nm,
          (scalar (MstarinitSO v), ''Total initial stellar mass with a sphere '' @ label)),
       (''MBHsub_'' @ nm,
          (scalar (MBHsubSO v), ''Total sub-grid BH mass within a sphere '' @ label)),
       (''Mhotgas_'' @ nm,
          (scalar (MhotgasSO v),
           ''Total mass of gas with T > 1e5 K within a sphere '' @ label)),
       (''Tgas_'' @ nm,
          (scalar (TgasSO v),
           ''Mass-weighted average temperature of gas with T > 1e5 K within a sphere ''
             @ label)),
       (''Xraylum_'' @ nm,
          (scalar (XraylumSO v), ''Total Xray luminosity within a sphere '' @ label)),
       (''Xrayphlum_'' @ nm,
          (scalar (XrayphlumSO v), ''Total Xray photon luminosity within a sphere '' @ label)),
       (''compY_'' @ nm, (scalar (compYSO v), ''Total Compton y within a sphere '' @ label)) ]"

text \<open>\<^verbatim>\<open>dict.update\<close>: the entries are stored one after the other.\<close>

definition update :: "('k \<rightharpoonup> 'v) \<Rightarrow> ('k \<times> 'v) list \<Rightarrow> ('k \<rightharpoonup> 'v)" where
  "update m kvs = foldl (\<lambda>m' kv. m'(fst kv \<mapsto> snd kv)) m kvs"

subsection \<open>\<^verbatim>\<open>SOProperties.calculate\<close>\<close>

text \<open>
  Lines 63--102: the centre, the concatenated particle arrays and the density profile of
  the halo.
\<close>

definition profile_of ::
  "fields \<Rightarrow> particle_data \<Rightarrow> error + (vec3 unyt_array \<times> particles \<times> profile)" where
  "profile_of input_halo data =
     bind (getitem input_halo ''cofp'') (\<lambda>c0. bind (as_vec3 c0) (\<lambda>cofp.
     bind (load_all cofp data) (\<lambda>ps.
     bind (concat_particles ps) (\<lambda>p.
     bind (build_profile p) (\<lambda>prof.
     Inr (cofp, p, prof))))))"

text \<open>
  The values that \<^verbatim>\<open>calculate\<close> computes, before it stores them: lines 63--190.
\<close>

definition compute ::
  "so_properties \<Rightarrow> fields \<Rightarrow> particle_data \<Rightarrow> error + so_values" where
  "compute self input_halo data =
     bind (profile_of input_halo data) (\<lambda>(cofp, p, prof).
     bind (find_SO (reference self) p prof) (\<lambda>(m_SO, r_SO).
     aperture cofp data p m_SO r_SO))"

text \<open>
  \<^verbatim>\<open>calculate\<close> mutates \<^verbatim>\<open>halo_result\<close> in its last statement only: the model
  returns the new dictionary, or the error raised before the dictionary was touched.
\<close>

definition calculate ::
  "so_properties \<Rightarrow> fields \<Rightarrow> particle_data \<Rightarrow> halo_result \<Rightarrow> error + halo_result" where
  "calculate self input_halo data halo_result =
     bind (compute self input_halo data) (\<lambda>v.
     bind (bound (reference self)) (\<lambda>(_, nm, label).
     Inr (update halo_result (result_entries nm label v))))"

text \<open>The fifteen keys that \<^verbatim>\<open>calculate\<close> stores, for the name \<open>nm\<close>.\<close>

definition so_keys :: "string \<Rightarrow> string list" where
  "so_keys nm =
     map (\<lambda>q. q @ nm)
       [''r_'', ''m_'', ''com_'', ''vcom_'', ''Mgas_'', ''Mdm_'', ''Mstar_'', ''MBHdyn_'',
        ''Mstarinit_'', ''MBHsub_'', ''Mhotgas_'', ''Tgas_'', ''Xraylum_'', ''Xrayphlum_'',
        ''compY_'']"

text \<open>The number stored under a key of \<^verbatim>\<open>halo_result\<close>, when it is a scalar.\<close>

definition scalar_of :: "halo_result \<Rightarrow> string \<Rightarrow> real option" where
  "scalar_of hr k =
     (case hr k of
        None \<Rightarrow> None
      | Some (q, _) \<Rightarrow> (case ndview q of Arr0 x \<Rightarrow> Some x | _ \<Rightarrow> None))"

subsection \<open>Example inputs\<close>

text \<open>A catalogue of one halo, in comoving 1/h units with \<open>h = 1\<close>, box size 100 Mpc.\<close>

definition example_row :: catalogue_row where
  "example_row = \<lparr> Xcminpot = 1, Ycminpot = 0, Zcminpot = 0,
                    Xc = 0, Yc = 0, Zc = 0, R_size = 2 \<rparr>"

definition example_units :: unit_info where
  "example_units = \<lparr> Comoving_or_Physical = 1, Length_unit_to_kpc = 1000,
                      Mass_unit_to_solarmass = 1 \<rparr>"

definition example_siminfo :: sim_info where
  "example_siminfo = \<lparr> h_val = 1 \<rparr>"

text \<open>
  Particle data for \<^verbatim>\<open>calculate\<close>. All positions lie on the first axis, so the radius
  of a particle is its first coordinate; lengths are in Mpc, masses in solar masses.
\<close>

definition arr1 :: "real list \<Rightarrow> string \<Rightarrow> ndarray unyt_array" where
  "arr1 xs u = \<lparr>ndview = Arr1 xs, units = u\<rparr>"

definition arr2 :: "vec3 list \<Rightarrow> string \<Rightarrow> ndarray unyt_array" where
  "arr2 xs u = \<lparr>ndview = Arr2 xs, units = u\<rparr>"

definition on_axis :: "real list \<Rightarrow> vec3 list" where
  "on_axis xs = map (\<lambda>x. (x, 0, 0)) xs"

definition example_halo :: fields where
  "example_halo = [''cofp'' \<mapsto> arr1 [0, 0, 0] ''Mpc'']"

text \<open>Gas particles at the given radii, of the given masses and temperatures, at rest.\<close>

definition gas_fields :: "real list \<Rightarrow> real list \<Rightarrow> real list \<Rightarrow> fields" where
  "gas_fields rs ms Ts =
     [''Coordinates'' \<mapsto> arr2 (on_axis rs) ''Mpc'',
      ''Masses'' \<mapsto> arr1 ms ''Msun'',
      ''Velocities'' \<mapsto> arr2 (on_axis (map (\<lambda>_. 0) rs)) ''km/s'',
      ''Temperatures'' \<mapsto> arr1 Ts ''K'',
      ''XrayLuminosities'' \<mapsto> arr1 (map (\<lambda>_. 1) rs) ''erg/s'',
      ''XrayPhotonLuminosities'' \<mapsto> arr1 (map (\<lambda>_. 1) rs) ''1/s'',
      ''ComptonYParameters'' \<mapsto> arr1 (map (\<lambda>_. 1) rs) ''Mpc**2'']"

definition dm_fields :: "real list \<Rightarrow> real list \<Rightarrow> fields" where
  "dm_fields rs ms =
     [''Coordinates'' \<mapsto> arr2 (on_axis rs) ''Mpc'',
      ''Masses'' \<mapsto> arr1 ms ''Msun'',
      ''Velocities'' \<mapsto> arr2 (on_axis (map (\<lambda>_. 0) rs)) ''km/s'']"

definition star_fields :: "real list \<Rightarrow> real list \<Rightarrow> fields" where
  "star_fields rs ms =
     [''Coordinates'' \<mapsto> arr2 (on_axis rs) ''Mpc'',
      ''Masses'' \<mapsto> arr1 ms ''Msun'',
      ''InitialMasses'' \<mapsto> arr1 ms ''Msun'',
      ''Velocities'' \<mapsto> arr2 (on_axis (map (\<lambda>_. 0) rs)) ''km/s'']"

definition bh_fields :: "real list \<Rightarrow> real list \<Rightarrow> fields" where
  "bh_fields rs ms =
     [''Coordinates'' \<mapsto> arr2 (on_axis rs) ''Mpc'',
      ''DynamicalMasses'' \<mapsto> arr1 ms ''Msun'',
      ''SubgridMasses'' \<mapsto> arr1 ms ''Msun'',
      ''Velocities'' \<mapsto> arr2 (on_axis (map (\<lambda>_. 0) rs)) ''km/s'']"

text \<open>
  A dark-matter-only halo: five particles of mass 100 at the radii 1 to 5. The same halo
  made of gas only. A halo with one particle of each species, at the radii 1 to 4. A halo
  of three gas particles, the first at the centre.
\<close>

definition dm_only_data :: particle_data where
  "dm_only_data =
     [(''PartType1'', dm_fields [1, 2, 3, 4, 5] [100, 100, 100, 100, 100])]"

definition gas_only_data :: particle_data where
  "gas_only_data =
     [(''PartType0'', gas_fields [1, 2, 3, 4, 5] [100, 100, 100, 100, 100]
                        [10000, 10000, 10000, 10000, 10000])]"

definition mixed_data :: particle_data where
  "mixed_data =
     [(''PartType0'', gas_fields [1] [100] [10000]),
      (''PartType1'', dm_fields [2] [100]),
      (''PartType4'', star_fields [3] [100]),
      (''PartType5'', bh_fields [4] [100])]"

definition central_data :: particle_data where
  "central_data =
     [(''PartType0'', gas_fields [0, 1, 2] [500, 100, 100] [10000, 10000, 10000])]"

text \<open>
  Calculators for 200 times the critical density. With the critical density 1/100 the
  reference density is 2, and the density of \<open>dm_only_data\<close>, \<open>gas_only_data\<close> and
  \<open>mixed_data\<close> falls below it between the third and the fourth particle; with the
  critical density 100 no density of these halos exceeds the reference; with the critical
  density 1/200 every density of \<open>mixed_data\<close> exceeds it.
\<close>

definition so_200_crit :: "real \<Rightarrow> so_properties" where
  "so_200_crit crit_density =
     \<lparr> so_type = ''crit'', mean_density_multiple = 200, critical_density_multiple = 200,
       name = ''SO_200_crit'', critical_density = crit_density,
       mean_density = crit_density / 2 \<rparr>"

definition earlier_result :: halo_result where
  "earlier_result = [''N_parts'' \<mapsto> (\<lparr>ndview = Arr0 4, units = ''dimensionless''\<rparr>,
                                   ''Number of particles'')]"

text \<open>
  The values that \<^verbatim>\<open>calculate\<close> computes for \<open>mixed_data\<close> with the reference
  density 2: the density falls below the reference at the fourth particle, the black hole
  at radius 4.
\<close>

definition mixed_values :: so_values where
  "mixed_values =
     \<lparr> rSO = \<lparr>ndview = 4, units = ''Mpc''\<rparr>,
       mSO = \<lparr>ndview = 400, units = ''Msun''\<rparr>,
       comSO = \<lparr>ndview = (3 / 2, 0, 0), units = ''Mpc''\<rparr>,
       vcomSO = \<lparr>ndview = (0, 0, 0), units = ''km/s''\<rparr>,
       MgasSO = \<lparr>ndview = 100, units = ''Msun''\<rparr>,
       MdmSO = \<lparr>ndview = 100, units = ''Msun''\<rparr>,
       MstarSO = \<lparr>ndview = 100, units = ''Msun''\<rparr>,
       MBHdynSO = \<lparr>ndview = 0, units = ''Msun''\<rparr>,
       MstarinitSO = \<lparr>ndview = 100, units = ''Msun''\<rparr>,
       MBHsubSO = \<lparr>ndview = 0, units = ''Msun''\<rparr>,
       MhotgasSO = \<lparr>ndview = 0, units = ''Msun''\<rparr>,
       TgasSO = \<lparr>ndview = 0, units = ''K''\<rparr>,
       XraylumSO = \<lparr>ndview = 1, units = ''erg/s''\<rparr>,
       XrayphlumSO = \<lparr>ndview = 1, units = ''1/s''\<rparr>,
       compYSO = \<lparr>ndview = 1, units = ''Mpc**2''\<rparr> \<rparr>"

text \<open>The particle arrays and the density profile of \<open>central_data\<close>.\<close>

definition central_particles :: particles where
  "central_particles =
     \<lparr> mass = \<lparr>ndview = [500, 100, 100], units = ''Msun''\<rparr>,
       radius = \<lparr>ndview = [0, 1, 2], units = ''Mpc''\<rparr>,
       position = \<lparr>ndview = [(0, 0, 0), (1, 0, 0), (2, 0, 0)], units = ''Mpc''\<rparr>,
       velocity = \<lparr>ndview = [(0, 0, 0), (0, 0, 0), (0, 0, 0)], units = ''km/s''\<rparr>,
       types = [''PartType0'', ''PartType0'', ''PartType0''] \<rparr>"

definition central_profile :: profile where
  "central_profile =
     \<lparr> sorted_mass = [500, 100, 100], nskip = 1, ordered_radius = [1, 2],
       cumulative_mass = [600, 700],
       density = [shell_density 600 1, shell_density 700 2] \<rparr>"


definition mixed_profile :: profile where
  "mixed_profile =
     \<lparr> sorted_mass = [100, 100, 100, 100], nskip = 0, ordered_radius = [1, 2, 3, 4],
       cumulative_mass = [100, 200, 300, 400],
       density = [shell_density 100 1, shell_density 200 2, shell_density 300 3,
                  shell_density 400 4] \<rparr>"


definition label_200_crit :: string where
  "label_200_crit = ''within which the density is 200 times the critical value''"

section \<open>Properties\<close>


subsection \<open>Auxiliary facts\<close>

lemma norm3_nonneg: "0 \<le> norm3 v"
  by (cases v) (simp add: norm3_def)

lemma bind_Inr: "bind m f = Inr y \<longleftrightarrow> (\<exists>x. m = Inr x \<and> f x = Inr y)"
  by (cases m) (auto simp: bind_def)

lemma bindE:
  assumes "bind m f = Inr y"
  obtains x where "m = Inr x" and "f x = Inr y"
  using assms by (auto simp: bind_Inr)

lemma skip_zero_takeWhile:
  "n \<le> length rs \<Longrightarrow> skip_zero rs n = n + length (takeWhile (\<lambda>r. r = 0) (drop n rs))"
proof (induction rs n rule: skip_zero.induct)
  case (1 rs n)
  show ?case
  proof (cases "n < length rs \<and> rs ! n = 0")
    case True
    then have d: "drop n rs = rs ! n # drop (Suc n) rs"
      using Cons_nth_drop_Suc [of n rs] by simp
    have "skip_zero rs n = skip_zero rs (n + 1)"
      using True by (subst skip_zero.simps) simp
    also have "\<dots> = (n + 1) + length (takeWhile (\<lambda>r. r = 0) (drop (n + 1) rs))"
      using "1.IH" True by simp
    finally show ?thesis using True d by simp
  next
    case False
    then have s: "skip_zero rs n = n"
      by (subst skip_zero.simps) auto
    show ?thesis
    proof (cases "n < length rs")
      case True
      then have d: "drop n rs = rs ! n # drop (Suc n) rs"
        using Cons_nth_drop_Suc [of n rs] by simp
      show ?thesis using s False True d by simp
    next
      case False
      then show ?thesis using s "1.prems" by simp
    qed
  qed
qed

lemma skip_zero_0: "skip_zero rs 0 = length (takeWhile (\<lambda>r. r = 0) rs)"
  using skip_zero_takeWhile [of 0 rs] by simp

lemma drop_skip_zero: "drop (skip_zero rs 0) rs = dropWhile (\<lambda>r. r = 0) rs"
  unfolding skip_zero_0 by (rule dropWhile_eq_drop [symmetric])

lemma take_skip_zero: "take (skip_zero rs 0) rs = takeWhile (\<lambda>r. r = 0) rs"
  unfolding skip_zero_0 by (rule takeWhile_eq_take [symmetric])

lemma skip_zero_le: "skip_zero rs 0 \<le> length rs"
  unfolding skip_zero_0 by (rule length_takeWhile_le)

lemma skipped_are_zero:
  assumes "j < skip_zero rs 0"
  shows "rs ! j = 0"
proof -
  let ?ts = "takeWhile (\<lambda>r. r = 0) rs"
  have j: "j < length ?ts"
    using assms unfolding skip_zero_0 .
  then have "?ts ! j = rs ! j"
    by (rule takeWhile_nth)
  moreover have "?ts ! j \<in> set ?ts"
    using j by (rule nth_mem)
  ultimately show ?thesis
    using set_takeWhileD [of "?ts ! j" "\<lambda>r. r = 0" rs] by simp
qed

lemma kept_are_positive:
  assumes "sorted rs" and "\<forall>r\<in>set rs. 0 \<le> r" and "x \<in> set (drop (skip_zero rs 0) rs)"
  shows "(0::real) < x"
proof -
  let ?ys = "dropWhile (\<lambda>r. r = 0) rs"
  have x: "x \<in> set ?ys" using assms(3) unfolding drop_skip_zero .
  then have ne: "?ys \<noteq> []" by (metis empty_iff empty_set)
  then have h: "hd ?ys \<noteq> 0" by (rule hd_dropWhile)
  have "hd ?ys \<in> set ?ys" using ne by (rule hd_in_set)
  then have "hd ?ys \<in> set rs" by (rule set_dropWhileD)
  then have "0 \<le> hd ?ys" using assms(2) by blast
  then have h0: "0 < hd ?ys" using h by linarith
  have "sorted ?ys" using assms(1) by (rule sorted_dropWhile)
  then have "hd ?ys \<le> x" using x ne by (cases ?ys) auto
  then show ?thesis using h0 by simp
qed

lemma cumsum_from_length [simp]: "length (cumsum_from acc xs) = length xs"
  by (induction xs arbitrary: acc) auto

lemma cumsum_length [simp]: "length (cumsum xs) = length xs"
  by (simp add: cumsum_def)

lemma cumsum_from_nth:
  "k < length xs \<Longrightarrow> cumsum_from acc xs ! k = acc + sum_list (take (Suc k) xs)"
proof (induction xs arbitrary: acc k)
  case Nil
  then show ?case by simp
next
  case (Cons x xs)
  then show ?case by (cases k) (auto simp: algebra_simps)
qed

lemma cumsum_nth: "k < length xs \<Longrightarrow> cumsum xs ! k = sum_list (take (Suc k) xs)"
  by (simp add: cumsum_def cumsum_from_nth)

lemma cumsum_drop_nth:
  assumes "n + k < length xs"
  shows "drop n (cumsum xs) ! k = sum_list (take n xs) + sum_list (take (Suc k) (drop n xs))"
proof -
  have "drop n (cumsum xs) ! k = cumsum xs ! (n + k)"
    using assms by simp
  also have "\<dots> = sum_list (take (n + Suc k) xs)"
    using assms by (simp add: cumsum_nth)
  also have "\<dots> = sum_list (take n xs) + sum_list (take (Suc k) (drop n xs))"
    by (simp only: take_add sum_list_append)
  finally show ?thesis .
qed

lemma take_idx_Inr: "take_idx xs idx = Inr ys \<Longrightarrow> ys = map (\<lambda>i. xs ! i) idx"
  by (auto simp: take_idx_def split: if_splits)

lemma sorted_argsort: "sorted (map (\<lambda>i. xs ! i) (argsort xs))"
  unfolding argsort_def by (rule sorted_sort_key)

lemma set_argsort: "set (argsort xs) = {0..<length xs}"
  by (simp add: argsort_def)

lemma length_argsort: "length (argsort xs) = length xs"
  by (simp add: argsort_def)

lemma load_species_radius:
  assumes "load_species cofp ptype fs = Inr q"
  shows "\<forall>r\<in>set (ndview (radius q)). 0 \<le> r"
proof -
  from assms obtain pos :: "vec3 list unyt_array"
    where "ndview (radius q) = map norm3 (ndview pos)"
    unfolding load_species_def Let_def
    by (elim bindE) auto
  then show ?thesis by (auto simp: norm3_nonneg)
qed

lemma load_all_radius:
  "load_all cofp data = Inr ps \<Longrightarrow> \<forall>q\<in>set ps. \<forall>r\<in>set (ndview (radius q)). 0 \<le> r"
proof (induction data arbitrary: ps)
  case Nil
  then show ?case by simp
next
  case (Cons a data)
  obtain ptype fs where a: "a = (ptype, fs)" by (cases a)
  from Cons.prems obtain q qs where q: "load_species cofp ptype fs = Inr q"
    and qs: "load_all cofp data = Inr qs" and ps: "ps = q # qs"
    unfolding a by (auto elim!: bindE)
  show ?case
    using load_species_radius [OF q] Cons.IH [OF qs] ps by simp
qed

lemma uconcatenate_Inr: "uconcatenate arrs = Inr a \<Longrightarrow> ndview a = concat (map ndview arrs) \<and> arrs \<noteq> [] \<and> units a = units (hd arrs)"
  by (auto simp: uconcatenate_def split: list.splits if_splits)

lemma concat_particles_radius:
  assumes "concat_particles ps = Inr p"
  shows "ndview (radius p) = concat (map (\<lambda>q. ndview (radius q)) ps)"
proof -
  from assms obtain r where "uconcatenate (map radius ps) = Inr r" and "radius p = r"
    unfolding concat_particles_def by (elim bindE) auto
  then show ?thesis
    using uconcatenate_Inr [of "map radius ps" r] by (simp add: comp_def)
qed

lemma profile_radius_nonneg:
  assumes "load_all cofp data = Inr ps" and "concat_particles ps = Inr p"
  shows "\<forall>r\<in>set (ndview (radius p)). 0 \<le> r"
  using load_all_radius [OF assms(1)] concat_particles_radius [OF assms(2)] by auto

lemma build_profile_Inr:
  assumes "build_profile p = Inr prof"
  shows "sorted_mass prof = map (\<lambda>i. ndview (mass p) ! i) (argsort (ndview (radius p)))"
    and "nskip prof = skip_zero (map (\<lambda>i. ndview (radius p) ! i) (argsort (ndview (radius p)))) 0"
    and "ordered_radius prof = drop (nskip prof) (map (\<lambda>i. ndview (radius p) ! i) (argsort (ndview (radius p))))"
    and "cumulative_mass prof = drop (nskip prof) (cumsum (sorted_mass prof))"
    and "density prof = map2 shell_density (cumulative_mass prof) (ordered_radius prof)"
proof -
  let ?order = "argsort (ndview (radius p))"
  from assms obtain r0 m0 where r0: "take_idx (ndview (radius p)) ?order = Inr r0"
    and m0: "take_idx (ndview (mass p)) ?order = Inr m0"
    and prof: "prof = \<lparr> sorted_mass = m0, nskip = skip_zero r0 0,
                ordered_radius = drop (skip_zero r0 0) r0,
                cumulative_mass = drop (skip_zero r0 0) (cumsum m0),
                density = map2 shell_density (drop (skip_zero r0 0) (cumsum m0))
                            (drop (skip_zero r0 0) r0) \<rparr>"
    unfolding build_profile_def Let_def by (elim bindE) auto
  have er: "r0 = map (\<lambda>i. ndview (radius p) ! i) ?order"
    using r0 by (rule take_idx_Inr)
  have em: "m0 = map (\<lambda>i. ndview (mass p) ! i) ?order"
    using m0 by (rule take_idx_Inr)
  show "sorted_mass prof = map (\<lambda>i. ndview (mass p) ! i) ?order"
    unfolding prof em by simp
  show "nskip prof = skip_zero (map (\<lambda>i. ndview (radius p) ! i) ?order) 0"
    unfolding prof er by simp
  show "ordered_radius prof = drop (nskip prof) (map (\<lambda>i. ndview (radius p) ! i) ?order)"
    unfolding prof er by simp
  show "cumulative_mass prof = drop (nskip prof) (cumsum (sorted_mass prof))"
    unfolding prof by simp
  show "density prof = map2 shell_density (cumulative_mass prof) (ordered_radius prof)"
    unfolding prof by simp
qed


lemma profile_of_Inr:
  assumes "profile_of input_halo data = Inr (cofp, p, prof)"
  obtains ps where "load_all cofp data = Inr ps" and "concat_particles ps = Inr p"
    and "build_profile p = Inr prof"
  using assms unfolding profile_of_def by (elim bindE) auto

lemma build_profile_lengths:
  assumes "build_profile p = Inr prof"
  shows "length (sorted_mass prof) = length (ndview (radius p))"
    and "length (cumulative_mass prof) = length (ordered_radius prof)"
    and "length (density prof) = length (ordered_radius prof)"
    and "length (ordered_radius prof) + nskip prof = length (ndview (radius p))"
proof -
  note b = build_profile_Inr [OF assms]
  let ?r0 = "map (\<lambda>i. ndview (radius p) ! i) (argsort (ndview (radius p)))"
  have n: "nskip prof \<le> length ?r0"
    unfolding b(2) by (rule skip_zero_le)
  show 1: "length (sorted_mass prof) = length (ndview (radius p))"
    unfolding b(1) by (simp add: length_argsort)
  show 2: "length (cumulative_mass prof) = length (ordered_radius prof)"
    unfolding b(4) b(3) using 1 by (simp add: length_argsort)
  show "length (density prof) = length (ordered_radius prof)"
    unfolding b(5) using 2 by simp
  show "length (ordered_radius prof) + nskip prof = length (ndview (radius p))"
    unfolding b(3) using n by (simp add: length_argsort)
qed

lemma norm3_axis: "norm3 (x, 0, 0) = \<bar>x\<bar>"
  by (simp add: norm3_def)

lemma pi_ge_three: "3 \<le> pi"
proof -
  have "sin (pi / 6) \<le> pi / 6"
    by (rule sin_x_le_x) simp
  then show ?thesis
    by (simp add: sin_30)
qed

lemma shell_volume_bounds:
  assumes "0 < r"
  shows "12 * r ^ 3 \<le> 3 * (4.0 / 3.0 * pi * r ^ 3)"
    and "3 * (4.0 / 3.0 * pi * r ^ 3) < 16 * r ^ 3"
proof -
  have r3: "0 < r ^ 3" using assms by simp
  have "3 * r ^ 3 \<le> pi * r ^ 3" using pi_ge_three r3 by simp
  then show "12 * r ^ 3 \<le> 3 * (4.0 / 3.0 * pi * r ^ 3)" by simp
  have "pi * r ^ 3 < 4 * r ^ 3" using pi_less_4 r3 by simp
  then show "3 * (4.0 / 3.0 * pi * r ^ 3) < 16 * r ^ 3" by simp
qed

lemma shell_density_above:
  assumes "0 < r" and "0 < \<rho>" and "\<rho> * (16 * r ^ 3) \<le> 3 * m"
  shows "(\<rho> < shell_density m r) = True" and "(shell_density m r < \<rho>) = False"
proof -
  let ?V = "4.0 / 3.0 * pi * r ^ 3"
  have V: "0 < ?V" using assms(1) by simp
  have "\<rho> * (3 * ?V) < \<rho> * (16 * r ^ 3)"
    using shell_volume_bounds(2) [OF assms(1)] assms(2) by (rule mult_strict_left_mono)
  then have "\<rho> * (3 * ?V) < 3 * m" using assms(3) by linarith
  then have "\<rho> * ?V < m" by simp
  then have "\<rho> < m / ?V" using V by (simp only: pos_less_divide_eq)
  then show "(\<rho> < shell_density m r) = True" and "(shell_density m r < \<rho>) = False"
    unfolding shell_density_def by simp_all
qed

lemma shell_density_below:
  assumes "0 < r" and "0 < \<rho>" and "3 * m < \<rho> * (12 * r ^ 3)"
  shows "(shell_density m r < \<rho>) = True" and "(\<rho> < shell_density m r) = False"
proof -
  let ?V = "4.0 / 3.0 * pi * r ^ 3"
  have V: "0 < ?V" using assms(1) by simp
  have "\<rho> * (12 * r ^ 3) \<le> \<rho> * (3 * ?V)"
    using shell_volume_bounds(1) [OF assms(1)] assms(2) by (intro mult_left_mono) simp_all
  then have "3 * m < \<rho> * (3 * ?V)" using assms(3) by linarith
  then have "m < \<rho> * ?V" by simp
  then have "m / ?V < \<rho>" using V by (simp only: pos_divide_less_eq)
  then show "(shell_density m r < \<rho>) = True" and "(\<rho> < shell_density m r) = False"
    unfolding shell_density_def by simp_all
qed

text \<open>
  Evaluation of the model on the example inputs: the definitions, unfolded by the
  simplifier in the order of the program (the argument of \<open>bind\<close> and of \<open>let\<close>
  first, the continuation after it).
\<close>

lemmas eval_simps =
  norm3_axis shell_density_above shell_density_below
  skip_zero.simps str_nat.simps
  bind_def getitem_def as1_def as2_def as_vec3_def scalar_def vector_def zero_with_def
  zero3_with_def uconcatenate_def np_concatenate_def argsort_def take_idx_def
  mask_select_def item_def cumsum_def np_any_def argmax_bool_def same_units_def
  mass_dataset_def vsub_def vadd_def vscale_def vdiv_def vsum_def subtract_centre_def
  load_species_def concat_particles_def build_profile_def reference_def bound_def
  reaches_threshold_def find_SO_def field1_def of_type_def masked_sum_def hot_gas_def
  inside_SO_def outside_SO_def aperture_def profile_of_def compute_def
  fmt_0f_def round_half_even_def
  arr1_def arr2_def on_axis_def example_halo_def gas_fields_def dm_fields_def
  star_fields_def bh_fields_def dm_only_data_def gas_only_data_def mixed_data_def
  central_data_def so_200_crit_def

lemma bind_weak_cong: "m = m' \<Longrightarrow> bind m f = bind m' f"
  by simp

lemma update_other: "k \<notin> fst ` set kvs \<Longrightarrow> update m kvs k = m k"
  unfolding update_def by (induction kvs arbitrary: m) auto

lemma dom_update: "dom (update m kvs) = dom m \<union> fst ` set kvs"
  unfolding update_def by (induction kvs arbitrary: m) auto

lemma result_entries_keys: "map fst (result_entries nm label v) = so_keys nm"
  by (simp add: result_entries_def so_keys_def)

lemma calculate_Inr:
  assumes "calculate self input_halo data halo_result = Inr hr'"
  obtains v \<rho> nm label where "compute self input_halo data = Inr v"
    and "reference self = Some (\<rho>, nm, label)"
    and "hr' = update halo_result (result_entries nm label v)"
proof -
  from assms obtain v x where v: "compute self input_halo data = Inr v"
    and x: "bound (reference self) = Inr x"
    and h: "(case x of (_, nm, label) \<Rightarrow> Inr (update halo_result (result_entries nm label v))) = Inr hr'"
    unfolding calculate_def by (elim bindE) auto
  obtain \<rho> nm label where xx: "x = (\<rho>, nm, label)" by (cases x)
  have "reference self = Some (\<rho>, nm, label)"
    using x xx by (simp add: bound_def split: option.splits)
  moreover have "hr' = update halo_result (result_entries nm label v)"
    using h xx by simp
  ultimately show ?thesis using v that by blast
qed





lemma compute_mixed:
  "compute (so_200_crit (1 / 100)) example_halo mixed_data = Inr mixed_values"
  by (simp add: eval_simps mixed_values_def Let_def cong: bind_weak_cong let_weak_cong)

lemma reference_200_crit:
  "reference (so_200_crit c) =
     Some (200 * c, ''200_crit'', label_200_crit)"
  by (simp add: reference_def so_200_crit_def fmt_0f_def round_half_even_def str_nat.simps
      label_200_crit_def)

lemma calculate_mixed:
  "calculate (so_200_crit (1 / 100)) example_halo mixed_data earlier_result
     = Inr (update earlier_result
         (result_entries ''200_crit''
            label_200_crit mixed_values))"
  by (simp add: calculate_def compute_mixed reference_200_crit bound_def bind_def)









lemma argmax_bool_first:
  assumes "np_any bs"
  shows "argmax_bool bs = Inr (length (takeWhile Not bs))"
    and "length (takeWhile Not bs) < length bs"
    and "bs ! length (takeWhile Not bs)"
    and "\<forall>j<length (takeWhile Not bs). \<not> bs ! j"
proof -
  from assms have ex: "\<exists>b\<in>set bs. b"
    by (simp add: np_any_def list_ex_iff)
  then have ne: "bs \<noteq> []" by auto
  show "argmax_bool bs = Inr (length (takeWhile Not bs))"
    using assms ne by (simp add: argmax_bool_def)
  have "length (takeWhile Not bs) \<noteq> length bs"
  proof
    assume e: "length (takeWhile Not bs) = length bs"
    have "takeWhile Not bs = take (length (takeWhile Not bs)) bs"
      by (rule takeWhile_eq_take)
    then have "takeWhile Not bs = bs"
      by (simp add: e)
    then have "\<forall>b\<in>set bs. \<not> b"
      by (simp add: takeWhile_eq_all_conv)
    then show False
      using ex by blast
  qed
  then show lt: "length (takeWhile Not bs) < length bs"
    using length_takeWhile_le [of Not bs] by linarith
  show "bs ! length (takeWhile Not bs)"
    using lt nth_length_takeWhile [of Not bs] by simp
  show "\<forall>j<length (takeWhile Not bs). \<not> bs ! j"
    using takeWhile_nth [of _ Not bs] nth_mem [of _ "takeWhile Not bs"] set_takeWhileD
    by metis
qed

lemma find_SO_first_crossing:
  assumes "find_SO (Some (\<rho>, nm, label)) p prof = Inr (m, r)"
    and "\<exists>d\<in>set (density prof). \<rho> < d"
    and "\<exists>d\<in>set (density prof). d < \<rho>"
    and "length (ordered_radius prof) = length (density prof)"
  shows "\<exists>i<length (density prof).
           density prof ! i < \<rho> \<and> (\<forall>j<i. \<not> density prof ! j < \<rho>)
         \<and> item (ordered_radius prof) i = Inr (ndview r)
         \<and> item (cumulative_mass prof) i = Inr (ndview m)"
proof -
  let ?bs = "map (\<lambda>d. d < \<rho>) (density prof)"
  have any: "np_any ?bs"
    using assms(3) by (auto simp: np_any_def list_ex_iff)
  note a = argmax_bool_first [OF any]
  let ?i = "length (takeWhile Not ?bs)"
  have reached: "np_any (map (\<lambda>d. d > \<rho>) (density prof))"
    using assms(2) by (auto simp: np_any_def list_ex_iff)
  have "density prof \<noteq> []"
    using assms(2) by auto
  then have rt: "reaches_threshold (Some (\<rho>, nm, label)) prof = Inr True"
    using reached assms(4) by (simp add: reaches_threshold_def bound_def bind_def)
  have "item (cumulative_mass prof) ?i = Inr (ndview m) \<and> item (ordered_radius prof) ?i = Inr (ndview r)"
    using assms(1) unfolding find_SO_def rt
    by (auto simp: bind_def bound_def a(1) split: sum.splits)
  moreover have "?i < length (density prof)" using a(2) by simp
  moreover have "density prof ! ?i < \<rho>" using a(2,3) by simp
  moreover have "\<forall>j<?i. \<not> density prof ! j < \<rho>"
    using a(2,4) by auto
  ultimately show ?thesis by blast
qed

lemma wrap_min: "wrap L d = min d (L - d)"
  by (auto simp: wrap_def min_def)

text \<open>
  C6. The wrapped difference on one axis is \<open>min(d, L - d)\<close>, where \<open>d\<close> is the absolute
  raw difference on that axis; the distance that enters the search radius is the Euclidean
  norm of the three wrapped differences; and for a pair straddling the edge of a box of
  size \<open>L\<close> (at least 0.4), the coordinates 0.1 and \<open>L - 0.1\<close> are 0.2 apart.
\<close>

theorem periodic_wrap_is_min:
  "wrap L \<bar>x - y\<bar> = min \<bar>x - y\<bar> (L - \<bar>x - y\<bar>)
   \<and> periodic_dist L (px, py, pz) (qx, qy, qz)
       = sqrt ((min \<bar>px - qx\<bar> (L - \<bar>px - qx\<bar>))\<^sup>2
             + (min \<bar>py - qy\<bar> (L - \<bar>py - qy\<bar>))\<^sup>2
             + (min \<bar>pz - qz\<bar> (L - \<bar>pz - qz\<bar>))\<^sup>2)
   \<and> local_search_radius L conv row
       = local_r_size conv row * 1.01
         + periodic_dist L (local_cofp conv row) (local_cofm conv row)
   \<and> (2 / 5 \<le> L \<longrightarrow> wrap L \<bar>1 / 10 - (L - 1 / 10)\<bar> = 1 / 5)"
proof -
  have ex: "2 / 5 \<le> L \<longrightarrow> wrap L \<bar>1 / 10 - (L - 1 / 10)\<bar> = 1 / 5"
    by (auto simp: wrap_def)
  have d: "periodic_dist L (px, py, pz) (qx, qy, qz)
       = sqrt ((min \<bar>px - qx\<bar> (L - \<bar>px - qx\<bar>))\<^sup>2
             + (min \<bar>py - qy\<bar> (L - \<bar>py - qy\<bar>))\<^sup>2
             + (min \<bar>pz - qz\<bar> (L - \<bar>pz - qz\<bar>))\<^sup>2)"
    by (simp add: periodic_dist_def norm3_def wrap_dims_def abs_diff_def wrap_min)
  show ?thesis
    using ex d by (simp add: wrap_min local_search_radius_def)
qed

theorem periodic_wrap_is_min_witness:
  "(2 / 5 \<le> (1::real)) \<and> wrap 1 \<bar>1 / 10 - (1 - 1 / 10)\<bar> = 1 / 5
   \<and> periodic_dist 1 (1 / 10, 0, 0) (9 / 10, 0, 0) = 1 / 5"
  using periodic_wrap_is_min [of 1 "1 / 10" "9 / 10" "1 / 10" 0 0 "9 / 10" 0 0]
  by (simp add: min_def)


text \<open>
  C5. For every halo \<open>h\<close> of the catalogue whose size radius (in Mpc, after the unit
  conversion) is not negative: the read radius is at least the search radius, the search
  radius is not negative and is at least 1.01 times the size radius, and the read radius
  is the search radius raised to the floor of 5 Mpc.
\<close>

theorem radii_ordered:
  assumes "h < length rows"
    and "0 \<le> local_r_size (length_conversion uinfo siminfo a) (rows ! h)"
  shows "search_radius (SOCatalogue rows uinfo siminfo a boxsize) ! h
           \<le> read_radius (SOCatalogue rows uinfo siminfo a boxsize) ! h
       \<and> 0 \<le> search_radius (SOCatalogue rows uinfo siminfo a boxsize) ! h
       \<and> 1.01 * local_r_size (length_conversion uinfo siminfo a) (rows ! h)
           \<le> search_radius (SOCatalogue rows uinfo siminfo a boxsize) ! h
       \<and> read_radius (SOCatalogue rows uinfo siminfo a boxsize) ! h
           = max (search_radius (SOCatalogue rows uinfo siminfo a boxsize) ! h) 5"
proof -
  let ?conv = "length_conversion uinfo siminfo a"
  have d: "0 \<le> periodic_dist boxsize (local_cofp ?conv (rows ! h)) (local_cofm ?conv (rows ! h))"
    by (simp add: periodic_dist_def norm3_nonneg)
  show ?thesis
    using assms d
    by (simp add: SOCatalogue_def Let_def local_search_radius_def local_read_radius_def
        min_radius_def max_def)
qed

theorem radii_ordered_witness:
  "(0::nat) < length [example_row]
   \<and> 0 \<le> local_r_size (length_conversion example_units example_siminfo 1) ([example_row] ! 0)
   \<and> search_radius (SOCatalogue [example_row] example_units example_siminfo 1 100) ! 0
       \<le> read_radius (SOCatalogue [example_row] example_units example_siminfo 1 100) ! 0
   \<and> 0 \<le> search_radius (SOCatalogue [example_row] example_units example_siminfo 1 100) ! 0
   \<and> 1.01 * local_r_size (length_conversion example_units example_siminfo 1) ([example_row] ! 0)
       \<le> search_radius (SOCatalogue [example_row] example_units example_siminfo 1 100) ! 0
   \<and> read_radius (SOCatalogue [example_row] example_units example_siminfo 1 100) ! 0 = 5"
proof -
  have h: "(0::nat) < length [example_row]"
    by simp
  have r: "0 \<le> local_r_size (length_conversion example_units example_siminfo 1) ([example_row] ! 0)"
    by (simp add: local_r_size_def length_conversion_def example_units_def
        example_siminfo_def example_row_def)
  have s: "search_radius (SOCatalogue [example_row] example_units example_siminfo 1 100) ! 0
             = 302 / 100"
    by (simp add: SOCatalogue_def local_search_radius_def local_r_size_def
        length_conversion_def example_units_def example_siminfo_def example_row_def
        periodic_dist_def norm3_def wrap_dims_def wrap_def abs_diff_def local_cofp_def
        local_cofm_def)
  show ?thesis
    using radii_ordered [OF h r, of 100] h r s by simp
qed

text \<open>
  C9. Constructing the calculator with the type \<^verbatim>\<open>"mean"\<close> or \<^verbatim>\<open>"crit"\<close> succeeds;
  with any other type the constructor raises \<^verbatim>\<open>AttributeError\<close> and yields no object
  on which \<^verbatim>\<open>calculate\<close> could run.
\<close>

theorem init_accepts_mean_and_crit_only:
  "init crit_density mean_dens SOval t =
     (if t = ''mean'' \<or> t = ''crit''
      then Inr \<lparr> so_type = t, mean_density_multiple = SOval,
                 critical_density_multiple = SOval,
                 name = ''SO_'' @ fmt_d SOval @ ''_'' @ t,
                 critical_density = crit_density, mean_density = mean_dens \<rparr>
      else Inl (AttributeError (''Unknown SO type: '' @ t @ ''!'')))"
  by (auto simp: init_def)

text \<open>
  C7. Whenever the profile is built: no retained radius is zero, so no density entry
  divides by zero; the entries dropped from the front are the particles of radius exactly
  zero; and every retained cumulative-mass entry is the mass of all dropped particles plus
  the mass of the retained particles up to that entry.
\<close>

theorem zero_radii_dropped:
  assumes "profile_of input_halo data = Inr (cofp, p, prof)"
  shows "(\<forall>r\<in>set (ordered_radius prof). r \<noteq> 0 \<and> 4.0 / 3.0 * pi * r ^ 3 \<noteq> 0)
       \<and> length (density prof) = length (ordered_radius prof)
       \<and> (\<forall>j<nskip prof. ndview (radius p) ! (argsort (ndview (radius p)) ! j) = 0)
       \<and> sorted_mass prof = map (\<lambda>i. ndview (mass p) ! i) (argsort (ndview (radius p)))
       \<and> (\<forall>k<length (cumulative_mass prof).
             cumulative_mass prof ! k
               = sum_list (take (nskip prof) (sorted_mass prof))
                 + sum_list (take (Suc k) (drop (nskip prof) (sorted_mass prof))))"
proof -
  from assms obtain ps where ps: "load_all cofp data = Inr ps"
    and p: "concat_particles ps = Inr p" and prof: "build_profile p = Inr prof"
    by (rule profile_of_Inr)
  note b = build_profile_Inr [OF prof]
  note l = build_profile_lengths [OF prof]
  let ?order = "argsort (ndview (radius p))"
  let ?r0 = "map (\<lambda>i. ndview (radius p) ! i) ?order"
  have nonneg: "\<forall>r\<in>set (ndview (radius p)). 0 \<le> r"
    using ps p by (rule profile_radius_nonneg)
  have "set ?r0 \<subseteq> set (ndview (radius p))"
    by (auto simp: set_argsort)
  then have r0: "\<forall>r\<in>set ?r0. 0 \<le> r"
    using nonneg by blast
  have pos: "\<forall>r\<in>set (ordered_radius prof). 0 < r"
    unfolding b(3) b(2) using kept_are_positive [OF sorted_argsort r0] by blast
  have 1: "\<forall>r\<in>set (ordered_radius prof). r \<noteq> 0 \<and> 4.0 / 3.0 * pi * r ^ 3 \<noteq> 0"
    using pos by auto
  have 3: "\<forall>j<nskip prof. ndview (radius p) ! (?order ! j) = 0"
  proof (intro allI impI)
    fix j assume j: "j < nskip prof"
    then have "?r0 ! j = 0"
      unfolding b(2) by (rule skipped_are_zero)
    moreover have "j < length ?order"
      using j l(4) by (simp add: length_argsort)
    ultimately show "ndview (radius p) ! (?order ! j) = 0"
      by simp
  qed
  have 5: "\<forall>k<length (cumulative_mass prof).
             cumulative_mass prof ! k
               = sum_list (take (nskip prof) (sorted_mass prof))
                 + sum_list (take (Suc k) (drop (nskip prof) (sorted_mass prof)))"
  proof (intro allI impI)
    fix k assume "k < length (cumulative_mass prof)"
    then have "nskip prof + k < length (sorted_mass prof)"
      using l by simp
    then show "cumulative_mass prof ! k
               = sum_list (take (nskip prof) (sorted_mass prof))
                 + sum_list (take (Suc k) (drop (nskip prof) (sorted_mass prof)))"
      unfolding b(4) by (rule cumsum_drop_nth)
  qed
  show ?thesis
    using 1 l(3) 3 b(1) 5 by blast
qed

theorem zero_radii_dropped_witness:
  "profile_of example_halo central_data
     = Inr (\<lparr>ndview = (0, 0, 0), units = ''Mpc''\<rparr>, central_particles, central_profile)
   \<and> ndview (radius central_particles) = [0, 1, 2]
   \<and> ordered_radius central_profile = [1, 2]
   \<and> 4.0 / 3.0 * pi * 1 ^ 3 \<noteq> (0::real)
   \<and> 4.0 / 3.0 * pi * 2 ^ 3 \<noteq> (0::real)
   \<and> cumulative_mass central_profile ! 0 = 500 + 100
   \<and> cumulative_mass central_profile ! 1 = 500 + (100 + 100)"
proof -
  have e: "profile_of example_halo central_data
     = Inr (\<lparr>ndview = (0, 0, 0), units = ''Mpc''\<rparr>, central_particles, central_profile)"
    by (simp add: eval_simps central_particles_def central_profile_def Let_def
        cong: bind_weak_cong let_weak_cong)
  have f: "ordered_radius central_profile = [1, 2]"
    "nskip central_profile = 1" "sorted_mass central_profile = [500, 100, 100]"
    "length (cumulative_mass central_profile) = 2"
    "ndview (radius central_particles) = [0, 1, 2]"
    by (simp_all add: central_profile_def central_particles_def)
  from zero_radii_dropped [OF e]
  have "(\<forall>r\<in>set (ordered_radius central_profile). r \<noteq> 0 \<and> 4.0 / 3.0 * pi * r ^ 3 \<noteq> 0)"
    and "\<forall>k<length (cumulative_mass central_profile).
             cumulative_mass central_profile ! k
               = sum_list (take (nskip central_profile) (sorted_mass central_profile))
                 + sum_list (take (Suc k) (drop (nskip central_profile) (sorted_mass central_profile)))"
    by blast+
  then show ?thesis
    using e f by simp
qed

text \<open>
  C10. Whenever \<^verbatim>\<open>calculate\<close> returns, the dictionary it leaves differs from
  \<^verbatim>\<open>halo_result\<close> only at its own fifteen keys, the fifteen prefixes followed by the
  name of the overdensity: every other key maps to what it mapped to before, and the keys
  of the new dictionary are the old keys and these fifteen. (When \<^verbatim>\<open>calculate\<close>
  raises, it has not touched the dictionary.)
\<close>

theorem calculate_only_adds_its_keys:
  assumes "calculate self input_halo data halo_result = Inr hr'"
  shows "\<exists>\<rho> nm label.
           reference self = Some (\<rho>, nm, label)
         \<and> (\<forall>k. k \<notin> set (so_keys nm) \<longrightarrow> hr' k = halo_result k)
         \<and> dom hr' = dom halo_result \<union> set (so_keys nm)
         \<and> length (so_keys nm) = 15"
proof -
  from assms obtain v \<rho> nm label where r: "reference self = Some (\<rho>, nm, label)"
    and h: "hr' = update halo_result (result_entries nm label v)"
    by (rule calculate_Inr)
  have k: "fst ` set (result_entries nm label v) = set (so_keys nm)"
    using result_entries_keys [of nm label v] by (metis set_map)
  have 1: "\<forall>k. k \<notin> set (so_keys nm) \<longrightarrow> hr' k = halo_result k"
    unfolding h using update_other [of _ "result_entries nm label v" halo_result] k by simp
  have 2: "dom hr' = dom halo_result \<union> set (so_keys nm)"
    unfolding h dom_update k ..
  have 3: "length (so_keys nm) = 15"
    by (simp add: so_keys_def)
  show ?thesis using r 1 2 3 by blast
qed

theorem calculate_only_adds_its_keys_witness:
  "calculate (so_200_crit (1 / 100)) example_halo mixed_data earlier_result
     = Inr (update earlier_result
         (result_entries ''200_crit''
            label_200_crit mixed_values))
   \<and> ''N_parts'' \<notin> set (so_keys ''200_crit'')
   \<and> update earlier_result
         (result_entries ''200_crit''
            label_200_crit mixed_values)
         ''N_parts''
       = Some (\<lparr>ndview = Arr0 4, units = ''dimensionless''\<rparr>, ''Number of particles'')"
proof -
  let ?hr = "update earlier_result
         (result_entries ''200_crit''
            label_200_crit mixed_values)"
  have c: "calculate (so_200_crit (1 / 100)) example_halo mixed_data earlier_result = Inr ?hr"
    by (rule calculate_mixed)
  have n: "''N_parts'' \<notin> set (so_keys ''200_crit'')"
    by (simp add: so_keys_def)
  from calculate_only_adds_its_keys [OF c]
  have "\<forall>k. k \<notin> set (so_keys ''200_crit'') \<longrightarrow> ?hr k = earlier_result k"
    by (simp add: reference_200_crit)
  then have "?hr ''N_parts'' = earlier_result ''N_parts''"
    using n by blast
  then show ?thesis
    using c n by (simp add: earlier_result_def)
qed





text \<open>
  C1. A species that is absent from \<^verbatim>\<open>data\<close> should count as zero particles, as the
  comment on \<^verbatim>\<open>particle_properties\<close> announces and as the loop over \<^verbatim>\<open>data\<close>
  does. Line 126 reads \<^verbatim>\<open>data["PartType0"]\<close> all the same: for the dark-matter-only
  halo \<^verbatim>\<open>calculate\<close> raises \<^verbatim>\<open>KeyError\<close> and stores nothing.
\<close>

theorem dm_only_halo_raises_KeyError:
  "calculate (so_200_crit (1 / 100)) example_halo dm_only_data earlier_result
     = Inl (KeyError ''PartType0'')"
  by (simp add: calculate_def eval_simps Let_def cong: bind_weak_cong let_weak_cong)

text \<open>
  C3. The SO radius should be the radius of the first entry whose density is below the
  reference. For the halo of five gas particles, whose density falls below the reference
  between the third and the fourth particle, \<^verbatim>\<open>calculate\<close> raises \<^verbatim>\<open>KeyError\<close> at
  line 167 (no star particles) instead of returning the fourth radius. For the halo of four
  particles with the reference density 1, every density exceeds the reference and none is
  below it; \<^verbatim>\<open>np.argmax\<close> of the all-false array is 0, and \<^verbatim>\<open>calculate\<close> stores
  the radius 1 and the mass 100 of the innermost particle.
\<close>

theorem gas_only_halo_raises_and_dense_halo_stops_at_first_particle:
  "calculate (so_200_crit (1 / 100)) example_halo gas_only_data earlier_result
     = Inl (KeyError ''PartType4'')
   \<and> density mixed_profile
       = [shell_density 100 1, shell_density 200 2, shell_density 300 3, shell_density 400 4]
   \<and> map (\<lambda>d. d > 1) (density mixed_profile) = [True, True, True, True]
   \<and> map (\<lambda>d. d < 1) (density mixed_profile) = [False, False, False, False]
   \<and> map_sum id (\<lambda>hr. (scalar_of hr ''r_200_crit'', scalar_of hr ''m_200_crit''))
         (calculate (so_200_crit (1 / 200)) example_halo mixed_data earlier_result)
       = Inr (Some 1, Some 100)"
  by (simp add: calculate_def eval_simps Let_def mixed_profile_def scalar_of_def update_def
      result_entries_def cong: bind_weak_cong let_weak_cong)

text \<open>
  C4. The masses of the four species inside the SO radius should add up to the SO mass.
  For the halo of four particles of mass 100 at the radii 1 to 4 the SO radius is 4 and the
  SO mass 400 (the cumulative mass including the particle at the SO radius), while the
  species masses, summed over the radii strictly below 4, are 100, 100, 100 and 0.
\<close>

theorem species_masses_do_not_add_up_to_SO_mass:
  "map_sum id
     (\<lambda>hr. (scalar_of hr ''r_200_crit'',
            [scalar_of hr ''Mgas_200_crit'', scalar_of hr ''Mdm_200_crit'',
             scalar_of hr ''Mstar_200_crit'', scalar_of hr ''MBHdyn_200_crit''],
            scalar_of hr ''m_200_crit''))
     (calculate (so_200_crit (1 / 100)) example_halo mixed_data earlier_result)
   = Inr (Some 4, [Some 100, Some 100, Some 100, Some 0], Some 400)"
  by (simp add: calculate_mixed scalar_of_def update_def result_entries_def scalar_def
      mixed_values_def)

end
